theory Spec2Isabelle
  imports Main
begin

section \<open>Python values\<close>

text \<open>
  The values that \<^verbatim>\<open>response.json()\<close> can produce: \<^verbatim>\<open>None\<close> (JSON null), booleans,
  integers, floats, strings, lists and dictionaries with string keys. The three slots of
  the result of \<^verbatim>\<open>get_splunkbase_app_info\<close> hold such values; a slot is absent when it
  is \<^verbatim>\<open>None\<close>. Strings are character lists. A float is kept as sign, mantissa and
  exponent (or infinity, or not-a-number); only its truth value is ever needed.
\<close>

datatype pyfloat = FloatFinite bool nat int | FloatInfinity bool | FloatNaN

datatype pyval =
    PNone
  | PBool bool
  | PInt int
  | PFloat pyfloat
  | PStr string
  | PList "pyval list"
  | PDict "(string \<times> pyval) list"

text \<open>
  Exceptions. \<open>RequestException\<close> stands for \<^verbatim>\<open>requests.RequestException\<close> and all its
  subclasses (connection errors, timeouts, \<^verbatim>\<open>HTTPError\<close> raised by
  \<^verbatim>\<open>raise_for_status\<close>); the string is \<^verbatim>\<open>str(e)\<close>, which the handlers print.
  \<open>TypeError\<close> and \<open>AttributeError\<close> are never printed by the program, so they carry
  no text. \<open>OtherException\<close> is any exception class outside these.
\<close>

datatype py_exception =
    RequestException string
  | KeyError string
  | IndexError string
  | TypeError
  | AttributeError
  | OtherException string

text \<open>Sequencing of steps that may raise: the first exception ends the sequence.\<close>

definition and_then :: "'e + 'a \<Rightarrow> ('a \<Rightarrow> 'e + 'b) \<Rightarrow> 'e + 'b" where
  "and_then m f = (case m of Inl e \<Rightarrow> Inl e | Inr x \<Rightarrow> f x)"

text \<open>Truth value of a value in a condition (\<^verbatim>\<open>if v:\<close>).\<close>

fun truthy :: "pyval \<Rightarrow> bool" where
  "truthy PNone = False"
| "truthy (PBool b) = b"
| "truthy (PInt i) = (i \<noteq> 0)"
| "truthy (PFloat (FloatFinite s m e)) = (m \<noteq> 0)"
| "truthy (PFloat (FloatInfinity s)) = True"
| "truthy (PFloat FloatNaN) = True"
| "truthy (PStr s) = (s \<noteq> [])"
| "truthy (PList xs) = (xs \<noteq> [])"
| "truthy (PDict kvs) = (kvs \<noteq> [])"

text \<open>\<^verbatim>\<open>isinstance(v, list)\<close>.\<close>

fun isinstance_list :: "pyval \<Rightarrow> bool" where
  "isinstance_list (PList xs) = True"
| "isinstance_list v = False"

text \<open>\<^verbatim>\<open>len(v)\<close>: defined on strings, lists and dictionaries, a \<^verbatim>\<open>TypeError\<close> elsewhere.\<close>

fun len :: "pyval \<Rightarrow> py_exception + nat" where
  "len (PStr s) = Inr (length s)"
| "len (PList xs) = Inr (length xs)"
| "len (PDict kvs) = Inr (length kvs)"
| "len v = Inl TypeError"

text \<open>
  \<^verbatim>\<open>repr\<close> of a dictionary key that holds no quote, backslash or control character
  (the program only ever looks up \<^verbatim>\<open>"name"\<close>): the key between single quotes. This is
  \<^verbatim>\<open>str(e)\<close> of the \<^verbatim>\<open>KeyError\<close> raised for a missing key.
\<close>

definition key_repr :: "string \<Rightarrow> string" where
  "key_repr k = [CHR 0x27] @ k @ [CHR 0x27]"

text \<open>\<^verbatim>\<open>v[0]\<close>: indexing with the integer 0.\<close>

fun getitem_0 :: "pyval \<Rightarrow> py_exception + pyval" where
  "getitem_0 (PList []) = Inl (IndexError ''list index out of range'')"
| "getitem_0 (PList (x # xs)) = Inr x"
| "getitem_0 (PStr []) = Inl (IndexError ''string index out of range'')"
| "getitem_0 (PStr (c # cs)) = Inr (PStr [c])"
| "getitem_0 (PDict kvs) = Inl (KeyError ''0'')"
| "getitem_0 v = Inl TypeError"

text \<open>
  \<^verbatim>\<open>v[k]\<close> with a string key \<open>k\<close>: a lookup in a dictionary, \<^verbatim>\<open>KeyError\<close> when the key
  is missing; a \<^verbatim>\<open>TypeError\<close> on every other value (lists and strings take integer
  indices, the rest is not subscriptable).
\<close>

fun getitem_key :: "pyval \<Rightarrow> string \<Rightarrow> py_exception + pyval" where
  "getitem_key (PDict kvs) k =
     (case map_of kvs k of Some v \<Rightarrow> Inr v | None \<Rightarrow> Inl (KeyError (key_repr k)))"
| "getitem_key v k = Inl TypeError"

text \<open>
  \<^verbatim>\<open>v.get(k, default)\<close>: only dictionaries have the method; on every other value the
  attribute lookup raises \<^verbatim>\<open>AttributeError\<close>.
\<close>

fun dict_get :: "pyval \<Rightarrow> string \<Rightarrow> pyval \<Rightarrow> py_exception + pyval" where
  "dict_get (PDict kvs) k dflt =
     Inr (case map_of kvs k of Some v \<Rightarrow> v | None \<Rightarrow> dflt)"
| "dict_get v k dflt = Inl AttributeError"

text \<open>
  A replacement field \<^verbatim>\<open>{v}\<close> of an f-string: a string is inserted as it is,
  \<^verbatim>\<open>None\<close> and booleans by their names. The text of a number or a container is taken
  from the parameter \<open>other\<close> (Python's \<^verbatim>\<open>str\<close> on these values).
\<close>

fun format_value :: "(pyval \<Rightarrow> string) \<Rightarrow> pyval \<Rightarrow> string" where
  "format_value other (PStr s) = s"
| "format_value other PNone = ''None''"
| "format_value other (PBool b) = (if b then ''True'' else ''False'')"
| "format_value other v = other v"

text \<open>\<^verbatim>\<open>sep.join(xs)\<close> on strings.\<close>

fun join :: "string \<Rightarrow> string list \<Rightarrow> string" where
  "join sep [] = []"
| "join sep [x] = x"
| "join sep (x # y # ys) = x @ sep @ join sep (y # ys)"

fun is_str :: "pyval \<Rightarrow> bool" where
  "is_str (PStr s) = True"
| "is_str v = False"

fun str_of :: "pyval \<Rightarrow> string" where
  "str_of (PStr s) = s"
| "str_of v = []"

text \<open>\<^verbatim>\<open>sep.join(xs)\<close> on a list of values: a \<^verbatim>\<open>TypeError\<close> unless all are strings.\<close>

definition str_join :: "string \<Rightarrow> pyval list \<Rightarrow> py_exception + pyval" where
  "str_join sep xs =
     (if list_all is_str xs then Inr (PStr (join sep (map str_of xs))) else Inl TypeError)"

section \<open>The HTTP library as the program sees it\<close>

text \<open>
  A response object holds the HTTP status code, the text the library builds for an
  error status (\<^verbatim>\<open>"404 Client Error: Not Found for url: ..."\<close>), and what \<^verbatim>\<open>json()\<close>
  does when called: it returns the decoded body or raises. \<open>requests_get\<close> is
  \<^verbatim>\<open>requests.get(url, timeout=10)\<close>: it raises (connection failure, timeout) or returns
  a response. The world outside the program is this function, together with Python's
  \<^verbatim>\<open>str\<close> on numbers and containers.
\<close>

record response =
  status_code :: int
  http_error_msg :: string
  json :: "py_exception + pyval"

record world =
  requests_get :: "string \<Rightarrow> py_exception + response"
  str_other :: "pyval \<Rightarrow> string"

text \<open>
  \<^verbatim>\<open>response.raise_for_status()\<close> of the library: it raises \<^verbatim>\<open>HTTPError\<close> (a request
  exception) with the error text when the status code is a client error (400 to 499) or
  a server error (500 to 599), and returns normally (\<open>None\<close>) for every other status
  code, the informational and redirection codes included.
\<close>

definition raise_for_status :: "response \<Rightarrow> py_exception option" where
  "raise_for_status r =
     (if 400 \<le> status_code r \<and> status_code r < 600
      then Some (RequestException (http_error_msg r)) else None)"

definition check_status :: "response \<Rightarrow> py_exception + unit" where
  "check_status r = (case raise_for_status r of Some e \<Rightarrow> Inl e | None \<Rightarrow> Inr ())"

section \<open>get_splunkbase_app_info\<close>

definition app_url :: "string \<Rightarrow> string" where
  "app_url app_id = ''https://splunkbase.splunk.com/api/v1/app/'' @ app_id"

definition release_url :: "string \<Rightarrow> string" where
  "release_url app_id = ''https://splunkbase.splunk.com/api/v1/app/'' @ app_id @ ''/release''"

definition download_url :: "(pyval \<Rightarrow> string) \<Rightarrow> string \<Rightarrow> pyval \<Rightarrow> string" where
  "download_url other app_id version =
     ''https://splunkbase.splunk.com/app/'' @ app_id @ ''/release/''
       @ format_value other version @ ''/download/''"

text \<open>
  The condition
  \<^verbatim>\<open>release_data and isinstance(release_data, list) and len(release_data) > 0\<close>,
  evaluated left to right; \<^verbatim>\<open>len\<close> is only called when the first two conjuncts hold.
\<close>

definition release_nonempty :: "pyval \<Rightarrow> py_exception + bool" where
  "release_nonempty release_data =
     (if \<not> truthy release_data then Inr False
      else if \<not> isinstance_list release_data then Inr False
      else and_then (len release_data) (\<lambda>n. Inr (0 < n)))"

type_synonym app_info = "pyval \<times> pyval \<times> pyval"

text \<open>
  The body of the \<^verbatim>\<open>try\<close> block. It either raises, or returns the lines it printed
  with the triple it returns. Nothing is printed before a step that can raise.
\<close>

definition try_body :: "world \<Rightarrow> string \<Rightarrow> py_exception + (string list \<times> app_info)" where
  "try_body w app_id =
     and_then (requests_get w (app_url app_id)) (\<lambda>app_response.
     and_then (check_status app_response) (\<lambda>_.
     and_then (json app_response) (\<lambda>app_data.
     and_then (dict_get app_data ''title'' (PStr ''Unknown'')) (\<lambda>app_name.
     and_then (requests_get w (release_url app_id)) (\<lambda>release_response.
     and_then (check_status release_response) (\<lambda>_.
     and_then (json release_response) (\<lambda>release_data.
     and_then (release_nonempty release_data) (\<lambda>nonempty.
       if nonempty then
         and_then (getitem_0 release_data) (\<lambda>release.
         and_then (getitem_key release ''name'') (\<lambda>version.
           Inr ([], (app_name, version,
                     PStr (download_url (str_other w) app_id version)))))
       else
         Inr ([''Error: Unexpected response structure for app '' @ app_id],
              (app_name, PNone, PNone))))))))))"

text \<open>
  The whole function: the \<^verbatim>\<open>try\<close> block with its two handlers. The result is the
  list of printed lines and either the returned triple or the exception that leaves the
  function.
\<close>

definition get_splunkbase_app_info ::
    "world \<Rightarrow> string \<Rightarrow> string list \<times> (py_exception + app_info)" where
  "get_splunkbase_app_info w app_id =
     (case try_body w app_id of
        Inr (printed, info) \<Rightarrow> (printed, Inr info)
      | Inl (RequestException e) \<Rightarrow>
          ([''Error fetching details for app '' @ app_id @ '': '' @ e],
           Inr (PNone, PNone, PNone))
      | Inl (KeyError e) \<Rightarrow>
          ([''Unexpected response structure for app '' @ app_id @ '': '' @ e],
           Inr (PNone, PNone, PNone))
      | Inl (IndexError e) \<Rightarrow>
          ([''Unexpected response structure for app '' @ app_id @ '': '' @ e],
           Inr (PNone, PNone, PNone))
      | Inl e \<Rightarrow> ([], Inl e))"

section \<open>get_multiple_splunkbase_urls\<close>

text \<open>
  The \<^verbatim>\<open>for\<close> loop, with the list \<open>urls\<close> collected so far and the lines printed so
  far. An exception that leaves \<^verbatim>\<open>get_splunkbase_app_info\<close> leaves the loop.
\<close>

fun collect_urls ::
    "world \<Rightarrow> string list \<Rightarrow> pyval list \<Rightarrow> string list
       \<Rightarrow> string list \<times> (py_exception + pyval list)" where
  "collect_urls w [] urls printed = (printed, Inr urls)"
| "collect_urls w (app_id # rest) urls printed =
     (case get_splunkbase_app_info w app_id of
        (out, Inl e) \<Rightarrow> (printed @ out, Inl e)
      | (out, Inr (_, _, url)) \<Rightarrow>
          collect_urls w rest (if truthy url then urls @ [url] else urls) (printed @ out))"

definition get_multiple_splunkbase_urls ::
    "world \<Rightarrow> string list \<Rightarrow> string list \<times> (py_exception + pyval)" where
  "get_multiple_splunkbase_urls w app_ids =
     (case collect_urls w app_ids [] [] of
        (printed, Inl e) \<Rightarrow> (printed, Inl e)
      | (printed, Inr urls) \<Rightarrow> (printed, str_join '','' urls))"

section \<open>Mocked responses\<close>

text \<open>
  Responses for concrete runs: a response with status 200 and a JSON body, a response
  with status 503 whose status check raises with the given text, a response with any
  status, error text and JSON body, and a world that answers from a table of URLs (any
  other URL is a connection failure).
\<close>

definition ok_response :: "pyval \<Rightarrow> response" where
  "ok_response body = \<lparr>status_code = 200, http_error_msg = [], json = Inr body\<rparr>"

definition error_response :: "string \<Rightarrow> response" where
  "error_response msg =
     \<lparr>status_code = 503, http_error_msg = msg,
      json = Inl (RequestException ''Expecting value: line 1 column 1 (char 0)'')\<rparr>"

definition status_response :: "int \<Rightarrow> string \<Rightarrow> pyval \<Rightarrow> response" where
  "status_response code msg body =
     \<lparr>status_code = code, http_error_msg = msg, json = Inr body\<rparr>"

definition mock :: "(string \<times> (py_exception + response)) list \<Rightarrow> world" where
  "mock table =
     \<lparr>requests_get = (\<lambda>url. case map_of table url of
                         Some r \<Rightarrow> r
                       | None \<Rightarrow> Inl (RequestException ''Connection refused'')),
      str_other = (\<lambda>v. ''?'')\<rparr>"

text \<open>Two successful responses used in the concrete runs below.\<close>

definition config_explorer :: response where
  "config_explorer = ok_response (PDict [(''title'', PStr ''Config Explorer'')])"

definition releases_1_7 :: response where
  "releases_1_7 = ok_response (PList [PDict [(''name'', PStr ''1.7.16'')],
                                      PDict [(''name'', PStr ''1.7.15'')]])"

section \<open>The download URLs that are present\<close>

text \<open>
  The words of the specification of \<^verbatim>\<open>get_multiple_splunkbase_urls\<close>, to be compared
  with the loop: the URL slot of each identifier's lookup, in input order, keeping the
  slots that are present (not \<^verbatim>\<open>None\<close>).
\<close>

fun returned_url :: "string list \<times> (py_exception + app_info) \<Rightarrow> pyval" where
  "returned_url (out, Inr (name, version, url)) = url"
| "returned_url (out, Inl e) = PNone"

definition present_urls :: "world \<Rightarrow> string list \<Rightarrow> string list" where
  "present_urls w app_ids =
     map str_of (filter (\<lambda>url. url \<noteq> PNone)
       (map (\<lambda>app_id. returned_url (get_splunkbase_app_info w app_id)) app_ids))"

section \<open>Basic facts\<close>

lemma and_then_Inl: "and_then (Inl e) f = Inl e"
  by (simp add: and_then_def)

lemma and_then_Inr: "and_then (Inr x) f = f x"
  by (simp add: and_then_def)

lemma and_then_eq_Inr: "and_then m f = Inr y \<longleftrightarrow> (\<exists>x. m = Inr x \<and> f x = Inr y)"
  by (cases m) (simp_all add: and_then_def)

lemma check_status_Inr: "check_status r = Inr u \<longleftrightarrow> raise_for_status r = None"
  by (simp add: check_status_def split: option.splits)

lemma release_nonempty_list: "release_nonempty (PList xs) = Inr (xs \<noteq> [])"
  by (simp add: release_nonempty_def and_then_def)

lemma release_nonempty_not_list:
  "\<not> isinstance_list v \<Longrightarrow> release_nonempty v = Inr False"
  by (simp add: release_nonempty_def)

lemma release_nonempty_True:
  "release_nonempty v = Inr True \<Longrightarrow> \<exists>x xs. v = PList (x # xs)"
  by (cases v) (auto simp: release_nonempty_def and_then_def neq_Nil_conv split: if_splits)

lemma dict_get_Inr:
  "dict_get v k d = Inr x \<Longrightarrow>
     \<exists>kvs. v = PDict kvs \<and> x = (case map_of kvs k of Some t \<Rightarrow> t | None \<Rightarrow> d)"
  by (cases v) auto

lemma getitem_key_Inr:
  "getitem_key v k = Inr x \<Longrightarrow> \<exists>kvs. v = PDict kvs \<and> map_of kvs k = Some x"
  by (cases v) (auto split: option.splits)

lemma download_url_nonempty: "download_url other app_id version \<noteq> []"
  by (simp add: download_url_def)

lemmas body_defs = get_splunkbase_app_info_def try_body_def check_status_def
  and_then_Inl and_then_Inr

lemmas mock_defs = mock_def ok_response_def error_response_def raise_for_status_def
  app_url_def release_url_def
  download_url_def release_nonempty_list key_repr_def

lemmas run_defs = body_defs mock_defs config_explorer_def releases_1_7_def

text \<open>
  Every way in which the \<^verbatim>\<open>try\<close> block returns: both requests, both status checks and
  both decodings raised nothing, the app data is a dictionary, and either the release
  data is not a non-empty list (the \<^verbatim>\<open>else\<close> branch) or its element 0 is a dictionary
  with a \<^verbatim>\<open>name\<close>.
\<close>

lemma try_body_returns:
  assumes "try_body w app_id = Inr (out, name, version, url)"
  shows "\<exists>app_response app_data release_response release_data.
           requests_get w (app_url app_id) = Inr app_response
         \<and> raise_for_status app_response = None
         \<and> json app_response = Inr (PDict app_data)
         \<and> name = (case map_of app_data ''title'' of Some t \<Rightarrow> t | None \<Rightarrow> PStr ''Unknown'')
         \<and> requests_get w (release_url app_id) = Inr release_response
         \<and> raise_for_status release_response = None
         \<and> json release_response = Inr release_data
         \<and> ((version = PNone \<and> url = PNone
               \<and> out = [''Error: Unexpected response structure for app '' @ app_id])
             \<or> (\<exists>release releases. release_data = PList (PDict release # releases)
                   \<and> map_of release ''name'' = Some version
                   \<and> url = PStr (download_url (str_other w) app_id version)
                   \<and> out = []))"
proof -
  from assms obtain app_response app_data app_name release_response release_data nonempty
    where 1: "requests_get w (app_url app_id) = Inr app_response"
      and 2: "raise_for_status app_response = None"
      and 3: "json app_response = Inr app_data"
      and 4: "dict_get app_data ''title'' (PStr ''Unknown'') = Inr app_name"
      and 5: "requests_get w (release_url app_id) = Inr release_response"
      and 6: "raise_for_status release_response = None"
      and 7: "json release_response = Inr release_data"
      and 8: "release_nonempty release_data = Inr nonempty"
      and 9: "(if nonempty then
         and_then (getitem_0 release_data) (\<lambda>release.
         and_then (getitem_key release ''name'') (\<lambda>version.
           Inr ([], (app_name, version,
                     PStr (download_url (str_other w) app_id version)))))
       else
         Inr ([''Error: Unexpected response structure for app '' @ app_id],
              (app_name, PNone, PNone))) = Inr (out, name, version, url)"
    unfolding try_body_def and_then_eq_Inr check_status_Inr by blast
  from 4 obtain kvs where kvs: "app_data = PDict kvs"
    "app_name = (case map_of kvs ''title'' of Some t \<Rightarrow> t | None \<Rightarrow> PStr ''Unknown'')"
    by (blast dest: dict_get_Inr)
  show ?thesis
  proof (cases nonempty)
    case False
    with 9 have "name = app_name" "version = PNone" "url = PNone"
      "out = [''Error: Unexpected response structure for app '' @ app_id]"
      by simp_all
    with 1 2 3 5 6 7 kvs show ?thesis by simp
  next
    case True
    with 8 have "release_nonempty release_data = Inr True" by simp
    then obtain x xs where xs: "release_data = PList (x # xs)"
      by (blast dest: release_nonempty_True)
    with True 9 obtain v where v: "getitem_key x ''name'' = Inr v"
      and r: "name = app_name" "version = v"
        "url = PStr (download_url (str_other w) app_id v)" "out = []"
      by (auto simp: and_then_eq_Inr)
    from v obtain d where "x = PDict d" "map_of d ''name'' = Some v"
      by (blast dest: getitem_key_Inr)
    with 1 2 3 5 6 7 kvs xs r show ?thesis by simp
  qed
qed

text \<open>A returned triple comes from the \<^verbatim>\<open>try\<close> block or from one of the two handlers.\<close>

lemma info_returned:
  assumes "get_splunkbase_app_info w app_id = (out, Inr info)"
  shows "try_body w app_id = Inr (out, info) \<or> info = (PNone, PNone, PNone)"
  using assms
  by (auto simp: get_splunkbase_app_info_def split: sum.splits py_exception.splits)

lemma returned_url_cases:
  assumes "get_splunkbase_app_info w app_id = (out, Inr (name, version, url))"
  shows "url = PNone \<or> url = PStr (download_url (str_other w) app_id version)"
  using info_returned [OF assms] try_body_returns [of w app_id out name version url]
  by auto

text \<open>
  The test \<^verbatim>\<open>if url:\<close> of the loop is the test for presence: a URL slot is
  \<^verbatim>\<open>None\<close> or a string that is not empty.
\<close>

lemma returned_url_truthy:
  assumes "get_splunkbase_app_info w app_id = (out, Inr (name, version, url))"
  shows "truthy url \<longleftrightarrow> url \<noteq> PNone" and "url \<noteq> PNone \<Longrightarrow> is_str url"
  using returned_url_cases [OF assms] by (auto simp: download_url_nonempty)

lemma collect_urls_returned:
  assumes "\<forall>app_id \<in> set app_ids.
             \<exists>out info. get_splunkbase_app_info w app_id = (out, Inr info)"
  shows "snd (collect_urls w app_ids urls printed) =
           Inr (urls @ filter (\<lambda>url. url \<noteq> PNone)
                  (map (\<lambda>app_id. returned_url (get_splunkbase_app_info w app_id)) app_ids))"
  using assms
proof (induction app_ids arbitrary: urls printed)
  case Nil
  then show ?case by simp
next
  case (Cons app_id rest)
  then obtain out name version url
    where r: "get_splunkbase_app_info w app_id = (out, Inr (name, version, url))"
    by (metis list.set_intros(1) prod_cases3)
  from Cons.prems
  have rest: "\<forall>a \<in> set rest. \<exists>out info. get_splunkbase_app_info w a = (out, Inr info)"
    by simp
  show ?case
    using returned_url_truthy(1) [OF r] Cons.IH [OF rest] by (simp add: r)
qed

lemma present_all_str:
  assumes "\<forall>app_id \<in> set app_ids.
             \<exists>out info. get_splunkbase_app_info w app_id = (out, Inr info)"
  shows "list_all is_str (filter (\<lambda>url. url \<noteq> PNone)
           (map (\<lambda>app_id. returned_url (get_splunkbase_app_info w app_id)) app_ids))"
  using assms
proof (induction app_ids)
  case Nil
  then show ?case by simp
next
  case (Cons app_id rest)
  then obtain out name version url
    where r: "get_splunkbase_app_info w app_id = (out, Inr (name, version, url))"
    by (metis list.set_intros(1) prod_cases3)
  from Cons show ?case
    using returned_url_truthy(2) [OF r] by (simp add: r)
qed

section \<open>Both endpoints answer with well-formed payloads\<close>

text \<open>
  C1 (as amended). When both requests succeed, the app data is an object whose
  \<^verbatim>\<open>title\<close>, if it has one, is not null, and the release data is a non-empty list whose
  element 0 is an object with a \<^verbatim>\<open>name\<close> that is not null, the function prints nothing
  and returns (name, version, url) with all three present: name is the title (or
  \<^verbatim>\<open>"Unknown"\<close> without a title), version is element 0's \<^verbatim>\<open>name\<close>, and url is
  \<^verbatim>\<open>https://splunkbase.splunk.com/app/{app_id}/release/{version}/download/\<close>.
\<close>

theorem well_formed_payloads:
  assumes "requests_get w (app_url app_id) = Inr app_response"
    and "raise_for_status app_response = None"
    and "json app_response = Inr (PDict app_data)"
    and "map_of app_data ''title'' \<noteq> Some PNone"
    and "requests_get w (release_url app_id) = Inr release_response"
    and "raise_for_status release_response = None"
    and "json release_response = Inr (PList (PDict release # releases))"
    and "map_of release ''name'' = Some version"
    and "version \<noteq> PNone"
  shows "get_splunkbase_app_info w app_id =
           ([], Inr (case map_of app_data ''title'' of Some t \<Rightarrow> t | None \<Rightarrow> PStr ''Unknown'',
                     version,
                     PStr (''https://splunkbase.splunk.com/app/'' @ app_id @ ''/release/''
                             @ format_value (str_other w) version @ ''/download/'')))
         \<and> (case map_of app_data ''title'' of Some t \<Rightarrow> t | None \<Rightarrow> PStr ''Unknown'') \<noteq> PNone"
  using assms
  by (auto simp: body_defs release_nonempty_list download_url_def split: option.splits)

theorem well_formed_payloads_witness:
  "get_splunkbase_app_info
     (mock [(app_url ''4353'', Inr config_explorer), (release_url ''4353'', Inr releases_1_7)])
     ''4353''
   = ([], Inr (PStr ''Config Explorer'', PStr ''1.7.16'',
               PStr ''https://splunkbase.splunk.com/app/4353/release/1.7.16/download/''))"
  using well_formed_payloads [of
     "mock [(app_url ''4353'', Inr config_explorer), (release_url ''4353'', Inr releases_1_7)]"
     "''4353''" config_explorer "[(''title'', PStr ''Config Explorer'')]" releases_1_7
     "[(''name'', PStr ''1.7.16'')]" "[PDict [(''name'', PStr ''1.7.15'')]]" "PStr ''1.7.16''"]
  by (simp add: mock_defs config_explorer_def releases_1_7_def)

text \<open>
  The claim as stated asks only that the app data is an object and that element 0 has a
  \<^verbatim>\<open>name\<close>. With the app data \<^verbatim>\<open>{"title": null}\<close> both hold, and the name slot of the
  result is \<^verbatim>\<open>None\<close>: \<^verbatim>\<open>dict.get\<close> returns the stored null, not the default.
\<close>

theorem null_title_counterexample:
  "get_splunkbase_app_info
     (mock [(app_url ''4353'', Inr (ok_response (PDict [(''title'', PNone)]))),
            (release_url ''4353'', Inr releases_1_7)])
     ''4353''
   = ([], Inr (PNone, PStr ''1.7.16'',
               PStr ''https://splunkbase.splunk.com/app/4353/release/1.7.16/download/''))"
  by (simp add: run_defs)

section \<open>Failure of the second request\<close>

text \<open>
  C2 (as amended). When the first GET succeeds with a JSON object and the second GET (the
  release list) fails with a request exception, raised by \<^verbatim>\<open>requests.get\<close> or by
  \<^verbatim>\<open>raise_for_status\<close>, the function prints the diagnostic of the first handler and
  returns (absent, absent, absent): the name obtained from the first call is discarded.
\<close>

theorem release_request_failure:
  assumes "requests_get w (app_url app_id) = Inr app_response"
    and "raise_for_status app_response = None"
    and "json app_response = Inr (PDict app_data)"
    and "requests_get w (release_url app_id) = Inl (RequestException e)
     \<or> (\<exists>r. requests_get w (release_url app_id) = Inr r
            \<and> raise_for_status r = Some (RequestException e))"
  shows "get_splunkbase_app_info w app_id =
           ([''Error fetching details for app '' @ app_id @ '': '' @ e],
            Inr (PNone, PNone, PNone))"
  using assms by (auto simp: body_defs)

theorem release_request_failure_witness:
  "get_splunkbase_app_info
     (mock [(app_url ''4353'', Inr config_explorer),
            (release_url ''4353'', Inr (error_response ''503 Server Error''))]) ''4353''
   = ([''Error fetching details for app 4353: 503 Server Error''], Inr (PNone, PNone, PNone))"
  using release_request_failure [of
     "mock [(app_url ''4353'', Inr config_explorer),
            (release_url ''4353'', Inr (error_response ''503 Server Error''))]"
     "''4353''" config_explorer "[(''title'', PStr ''Config Explorer'')]" "''503 Server Error''"]
  by (simp add: mock_defs config_explorer_def)

text \<open>
  The claim as stated has the name preserved. Here the first call yields the title
  \<^verbatim>\<open>Config Explorer\<close>, the second request is refused, and the result is not
  (\<^verbatim>\<open>Config Explorer\<close>, absent, absent) but (absent, absent, absent).
\<close>

theorem name_not_preserved_counterexample:
  "requests_get (mock [(app_url ''4353'', Inr config_explorer)]) (app_url ''4353'')
     = Inr config_explorer
   \<and> dict_get (PDict [(''title'', PStr ''Config Explorer'')]) ''title'' (PStr ''Unknown'')
     = Inr (PStr ''Config Explorer'')
   \<and> requests_get (mock [(app_url ''4353'', Inr config_explorer)]) (release_url ''4353'')
     = Inl (RequestException ''Connection refused'')
   \<and> get_splunkbase_app_info (mock [(app_url ''4353'', Inr config_explorer)]) ''4353''
     = ([''Error fetching details for app 4353: Connection refused''],
        Inr (PNone, PNone, PNone))
   \<and> snd (get_splunkbase_app_info (mock [(app_url ''4353'', Inr config_explorer)]) ''4353'')
     \<noteq> Inr (PStr ''Config Explorer'', PNone, PNone)"
  by (simp add: run_defs)

section \<open>Exceptions that leave the function\<close>

text \<open>
  C3. The claim is that no exception ever reaches the caller. The handlers catch request
  exceptions, \<^verbatim>\<open>KeyError\<close> and \<^verbatim>\<open>IndexError\<close> only. When the app endpoint answers with
  a JSON array, \<^verbatim>\<open>app_data.get\<close> raises \<^verbatim>\<open>AttributeError\<close>; when element 0 of the release
  list is a string, \<^verbatim>\<open>release_data[0]["name"]\<close> raises \<^verbatim>\<open>TypeError\<close>. Both leave the
  function, and nothing is printed.
\<close>

theorem exception_propagates:
  "get_splunkbase_app_info
     (mock [(app_url ''4353'', Inr (ok_response (PList [])))]) ''4353''
     = ([], Inl AttributeError)
   \<and> get_splunkbase_app_info
     (mock [(app_url ''4353'', Inr config_explorer),
            (release_url ''4353'', Inr (ok_response (PList [PStr ''1.7.16''])))]) ''4353''
     = ([], Inl TypeError)"
  by (simp add: run_defs)

section \<open>Joining the URLs of several identifiers\<close>

text \<open>
  C4. The claim is that for every sequence of identifiers the function returns the
  comma-joined download URLs of the identifiers whose URL is present, and the empty
  string when every identifier fails. \<^verbatim>\<open>get_multiple_splunkbase_urls\<close> has no handler
  of its own, so an exception that leaves \<^verbatim>\<open>get_splunkbase_app_info\<close> leaves it too.
  Of A, B and C let the app endpoint answer B with a JSON array: the claim gives the
  URLs of A and C joined by a comma, the code raises \<^verbatim>\<open>AttributeError\<close> and returns
  nothing. With B alone every identifier fails, and the code raises instead of returning
  the empty string.
\<close>

theorem multiple_urls_exception_propagates:
  "get_multiple_splunkbase_urls
     (mock [(app_url ''A'', Inr config_explorer), (release_url ''A'', Inr releases_1_7),
            (app_url ''B'', Inr (ok_response (PList []))),
            (app_url ''C'', Inr config_explorer), (release_url ''C'', Inr releases_1_7)])
     [''A'', ''B'', ''C'']
     = ([], Inl AttributeError)
   \<and> get_multiple_splunkbase_urls
     (mock [(app_url ''B'', Inr (ok_response (PList [])))]) [''B'']
     = ([], Inl AttributeError)"
  by (simp add: run_defs get_multiple_splunkbase_urls_def)

text \<open>
  Apart from that the loop does what the claim says. When the lookup of every identifier
  returns a triple, the result is the join of the URLs that are present, in input order,
  and the empty string when none is present.
\<close>

lemma join_append:
  "xs \<noteq> [] \<Longrightarrow> ys \<noteq> [] \<Longrightarrow> join sep (xs @ ys) = join sep xs @ sep @ join sep ys"
proof (induction sep xs rule: join.induct)
  case (1 sep)
  then show ?case by simp
next
  case (2 sep x)
  then show ?case by (cases ys) simp_all
next
  case (3 sep x y zs)
  then show ?case by simp
qed

lemma urls_joined_when_lookups_return:
  assumes "\<forall>app_id \<in> set app_ids.
             \<exists>out info. get_splunkbase_app_info w app_id = (out, Inr info)"
  shows "snd (get_multiple_splunkbase_urls w app_ids)
           = Inr (PStr (join '','' (present_urls w app_ids)))
       \<and> ((\<forall>app_id \<in> set app_ids. returned_url (get_splunkbase_app_info w app_id) = PNone)
            \<longrightarrow> snd (get_multiple_splunkbase_urls w app_ids) = Inr (PStr []))"
proof -
  have c: "snd (collect_urls w app_ids [] []) =
           Inr (filter (\<lambda>url. url \<noteq> PNone)
                  (map (\<lambda>app_id. returned_url (get_splunkbase_app_info w app_id)) app_ids))"
    using collect_urls_returned [OF assms, of "[]" "[]"] by simp
  have main: "snd (get_multiple_splunkbase_urls w app_ids)
                = Inr (PStr (join '','' (present_urls w app_ids)))"
    using c present_all_str [OF assms]
    by (cases "collect_urls w app_ids [] []")
      (simp add: get_multiple_splunkbase_urls_def str_join_def present_urls_def)
  have "present_urls w app_ids = []"
    if "\<forall>app_id \<in> set app_ids. returned_url (get_splunkbase_app_info w app_id) = PNone"
    using that by (simp add: present_urls_def filter_empty_conv)
  with main show ?thesis by simp
qed

text \<open>
  Concrete runs: of A, B, C and D the request for B is refused; a single identifier; the
  empty sequence; a sequence whose lookups all fail.
\<close>

lemma urls_joined_runs:
  "get_multiple_splunkbase_urls
     (mock [(app_url ''A'', Inr config_explorer), (release_url ''A'', Inr releases_1_7),
            (app_url ''C'', Inr config_explorer), (release_url ''C'', Inr releases_1_7),
            (app_url ''D'', Inr config_explorer), (release_url ''D'', Inr releases_1_7)])
     [''A'', ''B'', ''C'', ''D'']
     = ([''Error fetching details for app B: Connection refused''],
        Inr (PStr (''https://splunkbase.splunk.com/app/A/release/1.7.16/download/''
             @ '','' @ ''https://splunkbase.splunk.com/app/C/release/1.7.16/download/''
             @ '','' @ ''https://splunkbase.splunk.com/app/D/release/1.7.16/download/'')))
   \<and> get_multiple_splunkbase_urls
     (mock [(app_url ''A'', Inr config_explorer), (release_url ''A'', Inr releases_1_7)])
     [''A'']
     = ([], Inr (PStr ''https://splunkbase.splunk.com/app/A/release/1.7.16/download/''))
   \<and> get_multiple_splunkbase_urls (mock []) [] = ([], Inr (PStr []))
   \<and> get_multiple_splunkbase_urls (mock []) [''A'', ''B'']
     = ([''Error fetching details for app A: Connection refused'',
         ''Error fetching details for app B: Connection refused''], Inr (PStr []))"
  by (simp add: run_defs get_multiple_splunkbase_urls_def str_join_def)

section \<open>An empty release list\<close>

text \<open>
  C5 (as amended). When the app endpoint succeeds with a JSON object whose \<^verbatim>\<open>title\<close>,
  if it has one, is not null, and the release endpoint returns an empty array or a value
  that is not a list, the function prints one diagnostic line and returns
  (name, absent, absent) with the name of the first call present.
\<close>

theorem empty_release_list:
  assumes "requests_get w (app_url app_id) = Inr app_response"
    and "raise_for_status app_response = None"
    and "json app_response = Inr (PDict app_data)"
    and "map_of app_data ''title'' \<noteq> Some PNone"
    and "requests_get w (release_url app_id) = Inr release_response"
    and "raise_for_status release_response = None"
    and "json release_response = Inr release_data"
    and "release_data = PList [] \<or> \<not> isinstance_list release_data"
  shows "get_splunkbase_app_info w app_id =
           ([''Error: Unexpected response structure for app '' @ app_id],
            Inr (case map_of app_data ''title'' of Some t \<Rightarrow> t | None \<Rightarrow> PStr ''Unknown'',
                 PNone, PNone))
         \<and> (case map_of app_data ''title'' of Some t \<Rightarrow> t | None \<Rightarrow> PStr ''Unknown'') \<noteq> PNone"
  using assms
  by (auto simp: body_defs release_nonempty_list release_nonempty_not_list split: option.splits)

theorem empty_release_list_witness:
  "get_splunkbase_app_info
     (mock [(app_url ''4353'', Inr config_explorer),
            (release_url ''4353'', Inr (ok_response (PList [])))]) ''4353''
   = ([''Error: Unexpected response structure for app 4353''],
      Inr (PStr ''Config Explorer'', PNone, PNone))
   \<and> get_splunkbase_app_info
     (mock [(app_url ''4353'', Inr (ok_response (PDict []))),
            (release_url ''4353'', Inr (ok_response (PDict [(''detail'', PStr ''none'')])))])
     ''4353''
   = ([''Error: Unexpected response structure for app 4353''],
      Inr (PStr ''Unknown'', PNone, PNone))"
  using empty_release_list [of
     "mock [(app_url ''4353'', Inr config_explorer),
            (release_url ''4353'', Inr (ok_response (PList [])))]"
     "''4353''" config_explorer "[(''title'', PStr ''Config Explorer'')]"
     "ok_response (PList [])" "PList []"]
   empty_release_list [of
     "mock [(app_url ''4353'', Inr (ok_response (PDict []))),
            (release_url ''4353'', Inr (ok_response (PDict [(''detail'', PStr ''none'')])))]"
     "''4353''" "ok_response (PDict [])" "[]"
     "ok_response (PDict [(''detail'', PStr ''none'')])" "PDict [(''detail'', PStr ''none'')]"]
  by (simp add: mock_defs config_explorer_def)

text \<open>
  The claim as stated has the name present whenever the app endpoint succeeds. With the
  app data \<^verbatim>\<open>{"title": null}\<close> and an empty release list the name slot is \<^verbatim>\<open>None\<close>.
\<close>

theorem null_title_empty_releases_counterexample:
  "get_splunkbase_app_info
     (mock [(app_url ''4353'', Inr (ok_response (PDict [(''title'', PNone)]))),
            (release_url ''4353'', Inr (ok_response (PList [])))]) ''4353''
   = ([''Error: Unexpected response structure for app 4353''], Inr (PNone, PNone, PNone))"
  by (simp add: run_defs)

section \<open>Failure of the first request\<close>

text \<open>
  C6 (as amended). When the first GET (the app metadata endpoint) fails, either with a
  network failure (\<^verbatim>\<open>requests.get\<close> raises a request exception) or with a status code
  from 400 to 599 (the codes for which \<^verbatim>\<open>raise_for_status\<close> raises), the function
  returns (absent, absent, absent) and prints one diagnostic line that holds the
  identifier and the text of the error.
\<close>

theorem app_request_failure:
  assumes "requests_get w (app_url app_id) = Inl (RequestException e)
     \<or> (\<exists>r. requests_get w (app_url app_id) = Inr r
            \<and> 400 \<le> status_code r \<and> status_code r < 600 \<and> http_error_msg r = e)"
  shows "get_splunkbase_app_info w app_id =
           ([''Error fetching details for app '' @ app_id @ '': '' @ e],
            Inr (PNone, PNone, PNone))"
  using assms by (auto simp: body_defs raise_for_status_def)

theorem app_request_failure_witness:
  "requests_get (mock []) (app_url ''4353'') = Inl (RequestException ''Connection refused'')
   \<and> get_splunkbase_app_info (mock []) ''4353'' =
       ([''Error fetching details for app 4353: Connection refused''],
        Inr (PNone, PNone, PNone))
   \<and> status_code (status_response 404 ''404 Client Error: Not Found''
                    (PDict [(''detail'', PStr ''Not found.'')])) = 404
   \<and> get_splunkbase_app_info
         (mock [(app_url ''4353'',
                 Inr (status_response 404 ''404 Client Error: Not Found''
                        (PDict [(''detail'', PStr ''Not found.'')]))),
                (release_url ''4353'', Inr releases_1_7)]) ''4353'' =
       ([''Error fetching details for app 4353: 404 Client Error: Not Found''],
        Inr (PNone, PNone, PNone))
   \<and> get_splunkbase_app_info
         (mock [(app_url ''4353'',
                 Inr (status_response 599 ''599 Server Error'' (PDict [])))]) ''4353'' =
       ([''Error fetching details for app 4353: 599 Server Error''],
        Inr (PNone, PNone, PNone))"
  using app_request_failure [of "mock []" "''4353''" "''Connection refused''"]
    app_request_failure [of
      "mock [(app_url ''4353'',
              Inr (status_response 404 ''404 Client Error: Not Found''
                     (PDict [(''detail'', PStr ''Not found.'')]))),
             (release_url ''4353'', Inr releases_1_7)]"
      "''4353''" "''404 Client Error: Not Found''"]
    app_request_failure [of
      "mock [(app_url ''4353'', Inr (status_response 599 ''599 Server Error'' (PDict [])))]"
      "''4353''" "''599 Server Error''"]
  by (simp add: mock_def status_response_def)

text \<open>
  The claim as stated covers every status outside 200 to 299. The status check raises
  for the codes 400 to 599 only: a response with status 300 and a JSON body passes it,
  the function goes on to the release request, prints nothing and returns all three
  slots present.
\<close>

theorem status_300_counterexample:
  "status_code (status_response 300 [] (PDict [(''title'', PStr ''Config Explorer'')])) = 300
   \<and> get_splunkbase_app_info
     (mock [(app_url ''4353'',
             Inr (status_response 300 [] (PDict [(''title'', PStr ''Config Explorer'')]))),
            (release_url ''4353'', Inr releases_1_7)]) ''4353''
   = ([], Inr (PStr ''Config Explorer'', PStr ''1.7.16'',
               PStr ''https://splunkbase.splunk.com/app/4353/release/1.7.16/download/''))"
  by (simp add: run_defs status_response_def)

section \<open>Missing keys\<close>

text \<open>
  C7. Whenever the \<^verbatim>\<open>try\<close> block raises a \<^verbatim>\<open>KeyError\<close> or an \<^verbatim>\<open>IndexError\<close>, the
  function prints one diagnostic line with the identifier and the text of the error and
  returns (absent, absent, absent), as it does for a request failure. In particular this
  happens when both requests succeed and element 0 of the release list is an object
  without a \<^verbatim>\<open>name\<close>: the name already obtained from the app data is discarded.
\<close>

theorem malformed_structure:
  "(try_body w app_id = Inl (KeyError e) \<or> try_body w app_id = Inl (IndexError e)
      \<longrightarrow> get_splunkbase_app_info w app_id =
            ([''Unexpected response structure for app '' @ app_id @ '': '' @ e],
             Inr (PNone, PNone, PNone)))
   \<and> (requests_get w (app_url app_id) = Inr app_response
      \<and> raise_for_status app_response = None
      \<and> json app_response = Inr (PDict app_data)
      \<and> requests_get w (release_url app_id) = Inr release_response
      \<and> raise_for_status release_response = None
      \<and> json release_response = Inr (PList (PDict release # releases))
      \<and> map_of release ''name'' = None
      \<longrightarrow> try_body w app_id = Inl (KeyError (key_repr ''name''))
        \<and> get_splunkbase_app_info w app_id =
            ([''Unexpected response structure for app '' @ app_id @ '': '' @ key_repr ''name''],
             Inr (PNone, PNone, PNone)))"
  by (auto simp: body_defs release_nonempty_list)

theorem malformed_structure_witness:
  "try_body
     (mock [(app_url ''4353'', Inr config_explorer),
            (release_url ''4353'',
               Inr (ok_response (PList [PDict [(''version'', PStr ''1.7.16'')]])))])
     ''4353'' = Inl (KeyError [CHR 0x27, CHR ''n'', CHR ''a'', CHR ''m'', CHR ''e'', CHR 0x27])
   \<and> get_splunkbase_app_info
     (mock [(app_url ''4353'', Inr config_explorer),
            (release_url ''4353'',
               Inr (ok_response (PList [PDict [(''version'', PStr ''1.7.16'')]])))])
     ''4353''
   = ([''Unexpected response structure for app 4353: ''
         @ [CHR 0x27, CHR ''n'', CHR ''a'', CHR ''m'', CHR ''e'', CHR 0x27]],
      Inr (PNone, PNone, PNone))"
  using malformed_structure [of
     "mock [(app_url ''4353'', Inr config_explorer),
            (release_url ''4353'',
               Inr (ok_response (PList [PDict [(''version'', PStr ''1.7.16'')]])))]"
     "''4353''" "key_repr ''name''" config_explorer "[(''title'', PStr ''Config Explorer'')]"
     "ok_response (PList [PDict [(''version'', PStr ''1.7.16'')]])"
     "[(''version'', PStr ''1.7.16'')]" "[]"]
  by (simp add: mock_defs config_explorer_def)

section \<open>The name slot\<close>

text \<open>
  C8 (as amended). When the app endpoint returns a successful JSON object and the rest of
  the \<^verbatim>\<open>try\<close> block raises nothing (the release request, its status check and its
  decoding succeed, and element 0 of a non-empty release list is an object with a
  \<^verbatim>\<open>name\<close>), the name slot of the result is the object's \<^verbatim>\<open>title\<close> when it has one and
  the string \<^verbatim>\<open>"Unknown"\<close> when it has none.
\<close>

theorem name_is_title_or_unknown:
  assumes "requests_get w (app_url app_id) = Inr app_response"
    and "raise_for_status app_response = None"
    and "json app_response = Inr (PDict app_data)"
    and "requests_get w (release_url app_id) = Inr release_response"
    and "raise_for_status release_response = None"
    and "json release_response = Inr release_data"
    and "\<And>x xs. release_data = PList (x # xs)
           \<Longrightarrow> \<exists>d v. x = PDict d \<and> map_of d ''name'' = Some v"
  shows "\<exists>out version url. get_splunkbase_app_info w app_id =
           (out, Inr (case map_of app_data ''title'' of Some t \<Rightarrow> t | None \<Rightarrow> PStr ''Unknown'',
                      version, url))"
proof (cases "\<exists>x xs. release_data = PList (x # xs)")
  case True
  then obtain x xs where xs: "release_data = PList (x # xs)" by blast
  from assms(7) [OF xs] obtain d v where "x = PDict d" "map_of d ''name'' = Some v" by blast
  with assms(1-6) xs show ?thesis by (simp add: body_defs release_nonempty_list)
next
  case False
  then have "release_nonempty release_data = Inr False"
    by (cases release_data) (auto simp: release_nonempty_def neq_Nil_conv and_then_def)
  with assms(1-6) show ?thesis by (simp add: body_defs)
qed

theorem name_is_title_or_unknown_witness:
  "get_splunkbase_app_info
     (mock [(app_url ''833'', Inr config_explorer), (release_url ''833'', Inr releases_1_7)])
     ''833''
   = ([], Inr (PStr ''Config Explorer'', PStr ''1.7.16'',
               PStr ''https://splunkbase.splunk.com/app/833/release/1.7.16/download/''))
  \<and> get_splunkbase_app_info
     (mock [(app_url ''833'', Inr (ok_response (PDict [(''id'', PInt 833)]))),
            (release_url ''833'', Inr releases_1_7)])
     ''833''
   = ([], Inr (PStr ''Unknown'', PStr ''1.7.16'',
               PStr ''https://splunkbase.splunk.com/app/833/release/1.7.16/download/''))"
  using name_is_title_or_unknown [of
     "mock [(app_url ''833'', Inr config_explorer), (release_url ''833'', Inr releases_1_7)]"
     "''833''" config_explorer "[(''title'', PStr ''Config Explorer'')]" releases_1_7
     "PList [PDict [(''name'', PStr ''1.7.16'')], PDict [(''name'', PStr ''1.7.15'')]]"]
    name_is_title_or_unknown [of
     "mock [(app_url ''833'', Inr (ok_response (PDict [(''id'', PInt 833)]))),
            (release_url ''833'', Inr releases_1_7)]"
     "''833''" "ok_response (PDict [(''id'', PInt 833)])" "[(''id'', PInt 833)]" releases_1_7
     "PList [PDict [(''name'', PStr ''1.7.16'')], PDict [(''name'', PStr ''1.7.15'')]]"]
  by (simp add: run_defs)

text \<open>
  The claim as stated holds the name slot to the title whenever the app endpoint
  returns an object. Here it returns the title \<^verbatim>\<open>Config Explorer\<close>, the status check of
  the release response raises, and the name slot of the result is \<^verbatim>\<open>None\<close>.
\<close>

theorem title_lost_counterexample:
  "json config_explorer = Inr (PDict [(''title'', PStr ''Config Explorer'')])
   \<and> get_splunkbase_app_info
     (mock [(app_url ''833'', Inr config_explorer),
            (release_url ''833'', Inr (error_response ''503 Server Error''))]) ''833''
   = ([''Error fetching details for app 833: 503 Server Error''], Inr (PNone, PNone, PNone))"
  by (simp add: run_defs)

section \<open>The shapes of the result\<close>

text \<open>
  C10 (as amended). Whenever the function returns a triple, and neither the \<^verbatim>\<open>title\<close> of
  the app data nor the \<^verbatim>\<open>name\<close> of element 0 of the release list is null, the triple has
  one of three shapes: (present, present, present), (present, absent, absent) or
  (absent, absent, absent).
\<close>

theorem result_shapes:
  assumes "get_splunkbase_app_info w app_id = (out, Inr (name, version, url))"
    and "\<And>r d. requests_get w (app_url app_id) = Inr r \<Longrightarrow> json r = Inr (PDict d)
            \<Longrightarrow> map_of d ''title'' \<noteq> Some PNone"
    and "\<And>r d ds. requests_get w (release_url app_id) = Inr r
            \<Longrightarrow> json r = Inr (PList (PDict d # ds)) \<Longrightarrow> map_of d ''name'' \<noteq> Some PNone"
  shows "(name \<noteq> PNone \<and> version \<noteq> PNone \<and> url \<noteq> PNone)
       \<or> (name \<noteq> PNone \<and> version = PNone \<and> url = PNone)
       \<or> (name = PNone \<and> version = PNone \<and> url = PNone)"
proof -
  from info_returned [OF assms(1)]
  consider "try_body w app_id = Inr (out, name, version, url)"
    | "name = PNone" "version = PNone" "url = PNone"
    by auto
  then show ?thesis
  proof cases
    case 1
    from try_body_returns [OF 1] obtain app_response app_data release_response release_data
      where a: "requests_get w (app_url app_id) = Inr app_response"
        "json app_response = Inr (PDict app_data)"
        "name = (case map_of app_data ''title'' of Some t \<Rightarrow> t | None \<Rightarrow> PStr ''Unknown'')"
      and b: "requests_get w (release_url app_id) = Inr release_response"
        "json release_response = Inr release_data"
      and c: "(version = PNone \<and> url = PNone)
             \<or> (\<exists>release releases. release_data = PList (PDict release # releases)
                   \<and> map_of release ''name'' = Some version
                   \<and> url = PStr (download_url (str_other w) app_id version))"
      by blast
    from assms(2) [OF a(1) a(2)] a(3) have n: "name \<noteq> PNone"
      by (auto split: option.splits)
    from c show ?thesis
    proof
      assume "version = PNone \<and> url = PNone"
      with n show ?thesis by simp
    next
      assume "\<exists>release releases. release_data = PList (PDict release # releases)
                   \<and> map_of release ''name'' = Some version
                   \<and> url = PStr (download_url (str_other w) app_id version)"
      then obtain release releases where
        "release_data = PList (PDict release # releases)"
        "map_of release ''name'' = Some version"
        "url = PStr (download_url (str_other w) app_id version)" by blast
      with assms(3) [OF b(1)] b(2) n show ?thesis by auto
    qed
  next
    case 2
    then show ?thesis by simp
  qed
qed

theorem result_shapes_witness:
  "get_splunkbase_app_info
     (mock [(app_url ''1876'', Inr config_explorer), (release_url ''1876'', Inr releases_1_7)])
     ''1876''
   = ([], Inr (PStr ''Config Explorer'', PStr ''1.7.16'',
               PStr ''https://splunkbase.splunk.com/app/1876/release/1.7.16/download/''))
   \<and> PStr ''Config Explorer'' \<noteq> PNone \<and> PStr ''1.7.16'' \<noteq> PNone
   \<and> PStr ''https://splunkbase.splunk.com/app/1876/release/1.7.16/download/'' \<noteq> PNone"
  using result_shapes [of
     "mock [(app_url ''1876'', Inr config_explorer), (release_url ''1876'', Inr releases_1_7)]"
     "''1876''" "[]" "PStr ''Config Explorer''" "PStr ''1.7.16''"
     "PStr ''https://splunkbase.splunk.com/app/1876/release/1.7.16/download/''"]
  by (simp add: run_defs)

text \<open>
  The claim as stated covers every outcome. With \<^verbatim>\<open>[{"name": null}]\<close> as release data
  the version slot is \<^verbatim>\<open>None\<close> while the url slot holds a string (built from the text
  \<^verbatim>\<open>None\<close>): the shape is (present, absent, present).
\<close>

theorem null_version_counterexample:
  "get_splunkbase_app_info
     (mock [(app_url ''1876'', Inr config_explorer),
            (release_url ''1876'', Inr (ok_response (PList [PDict [(''name'', PNone)]])))])
     ''1876''
   = ([], Inr (PStr ''Config Explorer'', PNone,
               PStr ''https://splunkbase.splunk.com/app/1876/release/None/download/''))"
  by (simp add: run_defs)

end
